theory Spec2Isabelle
  imports Complex_Main
begin

section \<open>JavaScript maps and the TTL caches\<close>

text \<open>
  A JavaScript \<open>Map\<close> keeps its entries in insertion order: \<open>set\<close> on a key that is
  present replaces the value in place, \<open>set\<close> on a new key appends, \<open>delete\<close> removes
  the entry. It is modelled as an association list without duplicate keys.
  Times are milliseconds since the epoch (\<open>Date.now()\<close>), as integers.
\<close>

type_synonym ('k, 'v) jsmap = "('k \<times> 'v) list"

fun mapSet :: "('k, 'v) jsmap \<Rightarrow> 'k \<Rightarrow> 'v \<Rightarrow> ('k, 'v) jsmap" where
  "mapSet [] k v = [(k, v)]"
| "mapSet ((k', v') # m) k v = (if k' = k then (k, v) # m else (k', v') # mapSet m k v)"

fun mapGet :: "('k, 'v) jsmap \<Rightarrow> 'k \<Rightarrow> 'v option" where
  "mapGet [] k = None"
| "mapGet ((k', v') # m) k = (if k' = k then Some v' else mapGet m k)"

fun mapDelete :: "('k, 'v) jsmap \<Rightarrow> 'k \<Rightarrow> ('k, 'v) jsmap" where
  "mapDelete [] k = []"
| "mapDelete ((k', v') # m) k = (if k' = k then mapDelete m k else (k', v') # mapDelete m k)"

text \<open>The entry type of \<open>SimpleCache\<close> and \<open>InsightCache\<close>: \<open>{ data, expires }\<close>.\<close>

record 'a cache_item =
  data :: 'a
  expires :: int

type_synonym 'a SimpleCache = "(string, 'a cache_item) jsmap"

text \<open>\<open>SimpleCache.set(key, data, ttlMs)\<close> at clock reading \<open>now\<close>.\<close>

definition SimpleCache_set :: "'a SimpleCache \<Rightarrow> string \<Rightarrow> 'a \<Rightarrow> int \<Rightarrow> int \<Rightarrow> 'a SimpleCache" where
  "SimpleCache_set c key d ttlMs now = mapSet c key \<lparr>data = d, expires = now + ttlMs\<rparr>"

text \<open>
  \<open>SimpleCache.get(key)\<close> at clock reading \<open>now\<close>: the value read (\<open>None\<close> for \<open>null\<close>)
  and the cache after the read, which has lost the entry when it had expired.
\<close>

definition SimpleCache_get :: "'a SimpleCache \<Rightarrow> string \<Rightarrow> int \<Rightarrow> 'a option \<times> 'a SimpleCache" where
  "SimpleCache_get c key now =
     (case mapGet c key of
        None \<Rightarrow> (None, c)
      | Some item \<Rightarrow>
          if now > expires item then (None, mapDelete c key)
          else (Some (data item), c))"

text \<open>\<open>InsightCache\<close> of fetchInsight.ts: the same store with the fixed TTL of 30 minutes.\<close>

definition INSIGHT_CACHE_TTL :: int where
  "INSIGHT_CACHE_TTL = 30 * 60 * 1000"

definition InsightCache_set :: "'a SimpleCache \<Rightarrow> string \<Rightarrow> 'a \<Rightarrow> int \<Rightarrow> 'a SimpleCache" where
  "InsightCache_set c key d now = mapSet c key \<lparr>data = d, expires = now + INSIGHT_CACHE_TTL\<rparr>"

definition InsightCache_get :: "'a SimpleCache \<Rightarrow> string \<Rightarrow> int \<Rightarrow> 'a option \<times> 'a SimpleCache" where
  "InsightCache_get c key now =
     (case mapGet c key of
        None \<Rightarrow> (None, c)
      | Some item \<Rightarrow>
          if now > expires item then (None, mapDelete c key)
          else (Some (data item), c))"

section \<open>JavaScript values\<close>

text \<open>
  \<open>analyzeInsight\<close> receives a value of type \<open>any\<close> and inspects it at run time, so its
  input is a dynamically typed value. Numbers are idealised as reals (no \<open>NaN\<close>, no
  infinities, no rounding error); an array is an object with index keys. Strings are
  lists of characters; the three arrow glyphs of the code are written in UTF-8.
\<close>

datatype jsval =
    JUndefined
  | JNull
  | JBool bool
  | JNum real
  | JStr string
  | JObj "(string \<times> jsval) list"

text \<open>\<open>!v\<close> is \<open>\<not> truthy v\<close>.\<close>

fun truthy :: "jsval \<Rightarrow> bool" where
  "truthy JUndefined = False"
| "truthy JNull = False"
| "truthy (JBool b) = b"
| "truthy (JNum r) = (r \<noteq> 0)"
| "truthy (JStr s) = (s \<noteq> [])"
| "truthy (JObj m) = True"

text \<open>\<open>typeof v === 'object'\<close> (true of \<open>null\<close>), \<open>'number'\<close>, \<open>'string'\<close>.\<close>

fun typeof_object :: "jsval \<Rightarrow> bool" where
  "typeof_object JNull = True"
| "typeof_object (JObj m) = True"
| "typeof_object v = False"

fun typeof_number :: "jsval \<Rightarrow> bool" where
  "typeof_number (JNum r) = True"
| "typeof_number v = False"

fun typeof_string :: "jsval \<Rightarrow> bool" where
  "typeof_string (JStr s) = True"
| "typeof_string v = False"

text \<open>
  Property read \<open>v.k\<close>. A missing property, and any property of a primitive that the
  code asks for, is \<open>undefined\<close>. The code reads properties of values it has found
  truthy only, so the \<open>TypeError\<close> of a read on \<open>null\<close> or \<open>undefined\<close> does not arise
  except in \<open>parseClaudeResponse\<close>, where it has the same outcome as \<open>undefined\<close>.
\<close>

fun getProp :: "jsval \<Rightarrow> string \<Rightarrow> jsval" where
  "getProp (JObj m) k = (case mapGet m k of Some v \<Rightarrow> v | None \<Rightarrow> JUndefined)"
| "getProp v k = JUndefined"

text \<open>\<open>Math.round\<close>: the nearest integer, a tie going up.\<close>

definition Math_round :: "real \<Rightarrow> real" where
  "Math_round x = of_int \<lfloor>x + 1 / 2\<rfloor>"

text \<open>\<open>String.prototype.includes\<close>: the second string occurs in the first as a block.\<close>

fun starts_with :: "string \<Rightarrow> string \<Rightarrow> bool" where
  "starts_with s [] = True"
| "starts_with [] (c # cs) = False"
| "starts_with (x # xs) (c # cs) = (x = c \<and> starts_with xs cs)"

fun str_includes :: "string \<Rightarrow> string \<Rightarrow> bool" where
  "str_includes [] sub = (sub = [])"
| "str_includes (x # xs) sub = (starts_with (x # xs) sub \<or> str_includes xs sub)"

definition arrow_up :: string where
  "arrow_up = [CHR 0xE2, CHR 0x86, CHR 0x91]"

definition arrow_right :: string where
  "arrow_right = [CHR 0xE2, CHR 0x86, CHR 0x92]"

definition arrow_down :: string where
  "arrow_down = [CHR 0xE2, CHR 0x86, CHR 0x93]"

text \<open>
  Library functions the code calls and this development does not embed: the digests of
  \<open>crypto\<close>, the number and string serialisation inside \<open>JSON.stringify\<close>,
  \<open>JSON.parse\<close> (\<open>None\<close> when it throws), \<open>parseFloat\<close> (\<open>None\<close> for \<open>NaN\<close>),
  \<open>toFixed(1)\<close>, and \<open>trim()\<close> and \<open>substring(0, n)\<close>, which work on the UTF-16 units
  and the Unicode white space of a JavaScript string. Every definition that needs one
  takes the record as a parameter.
\<close>

record js_lib =
  md5_hex :: "string \<Rightarrow> string"
  sha1_hex :: "string \<Rightarrow> string"
  numberToString :: "real \<Rightarrow> string"
  quoteJSONString :: "string \<Rightarrow> string"
  JSON_parse :: "string \<Rightarrow> jsval option"
  parseFloat :: "string \<Rightarrow> real option"
  toFixed1 :: "real \<Rightarrow> string"
  str_trim :: "string \<Rightarrow> string"
  substring0 :: "nat \<Rightarrow> string \<Rightarrow> string"

section \<open>The metrics\<close>

datatype Trend = Up | Down | Stable

record ProductionData =
  index :: real
  ptrend :: string

record EnergyData =
  centsPerKwh :: real
  etrend :: Trend

record WeatherData =
  temp :: real
  alert :: string

record InsightInput =
  production :: ProductionData
  energy :: EnergyData
  weather :: WeatherData

record InsightResponse =
  summary :: string
  recommendation :: string

fun trend_string :: "Trend \<Rightarrow> string" where
  "trend_string Up = ''up''"
| "trend_string Down = ''down''"
| "trend_string Stable = ''stable''"

section \<open>The Data-Hash function\<close>

text \<open>
  \<open>JSON.stringify(value, replacer)\<close> with an array as replacer. The array is the list of
  property names that are serialised, in its own order, and it applies to every object
  of the value, the nested ones included; a property whose value is \<open>undefined\<close> (or
  that is missing) is left out. The result is \<open>None\<close> for \<open>undefined\<close>.
\<close>

fun join_comma :: "string list \<Rightarrow> string" where
  "join_comma [] = []"
| "join_comma [s] = s"
| "join_comma (s # t # ss) = s @ '','' @ join_comma (t # ss)"

fun stringify :: "js_lib \<Rightarrow> string list \<Rightarrow> jsval \<Rightarrow> string option" where
  "stringify L ks JUndefined = None"
| "stringify L ks JNull = Some ''null''"
| "stringify L ks (JBool b) = Some (if b then ''true'' else ''false'')"
| "stringify L ks (JNum r) = Some (numberToString L r)"
| "stringify L ks (JStr s) = Some (quoteJSONString L s)"
| "stringify L ks (JObj m) =
     (let props = map (\<lambda>(k, v). (k, stringify L ks v)) m
      in Some (''{''
           @ join_comma (concat (map (\<lambda>k. case mapGet props k of
                                            Some (Some s) \<Rightarrow> [quoteJSONString L k @ '':'' @ s]
                                          | _ \<Rightarrow> []) ks))
           @ ''}''))"

text \<open>\<open>Math.round(x * 10) / 10\<close>, \<open>Math.round(x * 100) / 100\<close>, \<open>Math.round(x / 5) * 5\<close>.\<close>

definition round1 :: "real \<Rightarrow> real" where
  "round1 x = Math_round (x * 10) / 10"

definition round2 :: "real \<Rightarrow> real" where
  "round2 x = Math_round (x * 100) / 100"

definition round_to_5 :: "real \<Rightarrow> real" where
  "round_to_5 x = Math_round (x / 5) * 5"

text \<open>The object \<open>normalizedData\<close> (\<open>combinedData\<close> in the handler), keys in source order.\<close>

definition normalizedData :: "ProductionData \<Rightarrow> EnergyData \<Rightarrow> WeatherData \<Rightarrow> jsval" where
  "normalizedData p e w =
     JObj [(''production'', JObj [(''index'', JNum (round1 (index p))),
                                  (''trend'', JStr (ptrend p))]),
           (''energy'', JObj [(''centsPerKwh'', JNum (round2 (centsPerKwh e))),
                              (''trend'', JStr (trend_string (etrend e)))]),
           (''weather'', JObj [(''temp'', JNum (round_to_5 (temp w))),
                               (''alert'', JStr (alert w))])]"

text \<open>\<open>Object.keys(normalizedData).sort()\<close>: the three top-level keys, sorted.\<close>

definition sorted_keys :: "string list" where
  "sorted_keys = [''energy'', ''production'', ''weather'']"

text \<open>
  \<open>dataString\<close>. An object always serialises to a string, so the second branch is
  never taken.
\<close>

definition dataString :: "js_lib \<Rightarrow> ProductionData \<Rightarrow> EnergyData \<Rightarrow> WeatherData \<Rightarrow> string" where
  "dataString L p e w =
     (case stringify L sorted_keys (normalizedData p e w) of Some s \<Rightarrow> s | None \<Rightarrow> [])"

text \<open>\<open>generateDataHash\<close> of fetchInsight.ts (MD5) and of the handler (SHA-1).\<close>

definition generateDataHash :: "js_lib \<Rightarrow> InsightInput \<Rightarrow> string" where
  "generateDataHash L d = md5_hex L (dataString L (production d) (energy d) (weather d))"

definition generateDataHash_handler ::
  "js_lib \<Rightarrow> ProductionData \<Rightarrow> EnergyData \<Rightarrow> WeatherData \<Rightarrow> string" where
  "generateDataHash_handler L p e w = sha1_hex L (dataString L p e w)"

section \<open>Failures and upstream replies\<close>

text \<open>Every \<open>throw\<close> of the code, and the two ways an awaited call rejects.\<close>

datatype error =
    ApiKeyRequired
  | InvalidApiKey
  | RateLimitExceeded
  | AccessDenied
  | LocationNotFound
  | ApiError nat
  | FetchRejected
  | BodyNotJson
  | NoData
  | NoValidData
  | InvalidValue
  | InvalidResponseFormat
  | Unexpected

text \<open>
  What \<open>await fetch(...)\<close> followed by \<open>await response.json()\<close> gives: the request is
  rejected (network failure, or the timeout of \<open>AbortSignal.timeout\<close>), or a response
  arrives with a status and a body, \<open>None\<close> when the body is not JSON.
\<close>

datatype 'b upstream = Rejected | Responded nat "'b option"

definition response_ok :: "nat \<Rightarrow> bool" where
  "response_ok st = (200 \<le> st \<and> st \<le> 299)"

section \<open>The insight generator (fetchInsight.ts)\<close>

fun num_of :: "jsval \<Rightarrow> real" where
  "num_of (JNum r) = r"
| "num_of v = 0"

fun str_of :: "jsval \<Rightarrow> string" where
  "str_of (JStr s) = s"
| "str_of v = []"

definition trend_of :: "jsval \<Rightarrow> Trend" where
  "trend_of v = (if v = JStr ''up'' then Up else if v = JStr ''down'' then Down else Stable)"

definition validateInputData :: "jsval \<Rightarrow> bool" where
  "validateInputData d =
     (if \<not> truthy d \<or> \<not> typeof_object d then False
      else
        let production = getProp d ''production'';
            energy = getProp d ''energy'';
            weather = getProp d ''weather''
        in
          if \<not> truthy production \<or> \<not> typeof_number (getProp production ''index'')
               \<or> \<not> typeof_string (getProp production ''trend'') then False
          else if \<not> truthy energy \<or> \<not> typeof_number (getProp energy ''centsPerKwh'')
               \<or> \<not> (getProp energy ''trend'' \<in> set [JStr ''up'', JStr ''down'', JStr ''stable'']) then False
          else if \<not> truthy weather \<or> \<not> typeof_number (getProp weather ''temp'')
               \<or> \<not> typeof_string (getProp weather ''alert'') then False
          else True)"

text \<open>
  The view of a validated value as an \<open>InsightInput\<close> (the type guard
  \<open>data is InsightInput\<close>); it is applied to validated values only.
\<close>

definition as_InsightInput :: "jsval \<Rightarrow> InsightInput" where
  "as_InsightInput d =
     \<lparr>production = \<lparr>index = num_of (getProp (getProp d ''production'') ''index''),
                    ptrend = str_of (getProp (getProp d ''production'') ''trend'')\<rparr>,
      energy = \<lparr>centsPerKwh = num_of (getProp (getProp d ''energy'') ''centsPerKwh''),
                etrend = trend_of (getProp (getProp d ''energy'') ''trend'')\<rparr>,
      weather = \<lparr>temp = num_of (getProp (getProp d ''weather'') ''temp''),
                 alert = str_of (getProp (getProp d ''weather'') ''alert'')\<rparr>\<rparr>"

text \<open>The object literal \<open>{ production, energy, weather }\<close> the handler passes.\<close>

definition insight_argument :: "ProductionData \<Rightarrow> EnergyData \<Rightarrow> WeatherData \<Rightarrow> jsval" where
  "insight_argument p e w =
     JObj [(''production'', JObj [(''index'', JNum (index p)), (''trend'', JStr (ptrend p))]),
           (''energy'', JObj [(''centsPerKwh'', JNum (centsPerKwh e)),
                              (''trend'', JStr (trend_string (etrend e)))]),
           (''weather'', JObj [(''temp'', JNum (temp w)), (''alert'', JStr (alert w))])]"

text \<open>
  The match of \<open>/\{[\s\S]*\}/\<close>: from the first opening brace to the last closing brace
  after it.
\<close>

definition match_braces :: "string \<Rightarrow> string option" where
  "match_braces s =
     (let t = dropWhile (\<lambda>c. c \<noteq> CHR ''{'') s;
          r = rev (dropWhile (\<lambda>c. c \<noteq> CHR ''}'') (rev t))
      in if r = [] then None else Some r)"

definition parseClaudeResponse :: "js_lib \<Rightarrow> string \<Rightarrow> InsightResponse option" where
  "parseClaudeResponse L responseText =
     (let jsonMatch = (case match_braces responseText of Some m \<Rightarrow> m | None \<Rightarrow> responseText)
      in case JSON_parse L jsonMatch of
           None \<Rightarrow> None
         | Some parsed \<Rightarrow>
             if typeof_string (getProp parsed ''summary'')
                \<and> typeof_string (getProp parsed ''recommendation'')
             then Some \<lparr>summary = substring0 L 200 (str_trim L (str_of (getProp parsed ''summary''))),
                        recommendation =
                          substring0 L 300 (str_trim L (str_of (getProp parsed ''recommendation'')))\<rparr>
             else None)"

text \<open>
  The environment of one call of \<open>analyzeInsight\<close>: the credential in \<open>process.env\<close>
  and the reply of the text-generation API, whose body is given by the text of its
  first content block (\<open>None\<close> when \<open>result.content?.[0]?.text\<close> is missing).
\<close>

record insight_env =
  CLAUDE_API_KEY :: "string option"
  claude_reply :: "string option upstream"

text \<open>What a call does to the world besides returning, in the order it does it.\<close>

datatype event = CacheGet string | CacheSet string | CacheValues | ApiCall

text \<open>
  The \<open>try\<close> block of \<open>analyzeInsight\<close> up to the parsed insight: \<open>Inl\<close> is the error
  thrown, \<open>Inr\<close> the insight that passed \<open>parseClaudeResponse\<close>; with it, whether the
  request was sent.
\<close>

definition claudeRequest :: "js_lib \<Rightarrow> insight_env \<Rightarrow> (error + InsightResponse) \<times> event list" where
  "claudeRequest L env =
     (if CLAUDE_API_KEY env = None \<or> CLAUDE_API_KEY env = Some [] then (Inl ApiKeyRequired, [])
      else case claude_reply env of
             Rejected \<Rightarrow> (Inl FetchRejected, [ApiCall])
           | Responded st body \<Rightarrow>
               if \<not> response_ok st then
                 (Inl (if st = 401 then InvalidApiKey
                       else if st = 429 then RateLimitExceeded
                       else ApiError st), [ApiCall])
               else
                 (case body of
                    None \<Rightarrow> (Inl BodyNotJson, [ApiCall])
                  | Some text \<Rightarrow>
                      (case parseClaudeResponse L (case text of Some t \<Rightarrow> t | None \<Rightarrow> []) of
                         Some parsedInsight \<Rightarrow> (Inr parsedInsight, [ApiCall])
                       | None \<Rightarrow> (Inl InvalidResponseFormat, [ApiCall]))))"

text \<open>The rule-based insight of the \<open>catch\<close> block of \<open>analyzeInsight\<close>.\<close>

definition contextualFallback :: "InsightInput \<Rightarrow> InsightResponse" where
  "contextualFallback d =
     (if temp (weather d) \<ge> 100 then
        \<lparr>summary = ''Extreme heat conditions detected'',
         recommendation = ''Consider shifting operations to cooler hours to reduce energy costs''\<rparr>
      else if etrend (energy d) = Up then
        \<lparr>summary = ''Energy costs trending upward'',
         recommendation = ''Optimize energy usage and consider off-peak scheduling''\<rparr>
      else if alert (weather d) \<noteq> ''none'' then
        \<lparr>summary = ''Weather alert active'',
         recommendation = ''Monitor weather conditions and prepare contingency plans''\<rparr>
      else if str_includes (ptrend (production d)) arrow_down then
        \<lparr>summary = ''Production index declining'',
         recommendation = ''Review production processes and identify improvement opportunities''\<rparr>
      else if str_includes (ptrend (production d)) arrow_up then
        \<lparr>summary = ''Production performing well'',
         recommendation = ''Maintain current efficiency while monitoring energy costs''\<rparr>
      else
        \<lparr>summary = ''Data analysis temporarily unavailable'',
         recommendation = ''Monitor key metrics and adjust operations as needed''\<rparr>)"

definition invalid_data_response :: InsightResponse where
  "invalid_data_response =
     \<lparr>summary = ''Invalid data provided for analysis.'',
      recommendation = ''Please ensure all required data fields are present and valid.''\<rparr>"

text \<open>
  \<open>analyzeInsight(data)\<close> at clock reading \<open>now\<close>, on the module's cache: the insight
  returned, the cache afterwards and the events. The clock is read once per call.
\<close>

definition analyzeInsight ::
  "js_lib \<Rightarrow> insight_env \<Rightarrow> int \<Rightarrow> InsightResponse SimpleCache \<Rightarrow> jsval
   \<Rightarrow> InsightResponse \<times> InsightResponse SimpleCache \<times> event list" where
  "analyzeInsight L env now cache d =
     (if \<not> validateInputData d then (invalid_data_response, cache, [])
      else
        let dataHash = generateDataHash L (as_InsightInput d);
            (cachedInsight, cache1) = InsightCache_get cache dataHash now
        in case cachedInsight of
             Some hit \<Rightarrow> (hit, cache1, [CacheGet dataHash])
           | None \<Rightarrow>
               (case claudeRequest L env of
                  (Inr parsedInsight, evs) \<Rightarrow>
                    (parsedInsight, InsightCache_set cache1 dataHash parsedInsight now,
                     CacheGet dataHash # evs @ [CacheSet dataHash])
                | (Inl err, evs) \<Rightarrow>
                    (case cache1 of
                       (k, item) # rest \<Rightarrow>
                         (data item, cache1, CacheGet dataHash # evs @ [CacheValues])
                     | [] \<Rightarrow>
                         (contextualFallback (as_InsightInput d), cache1,
                          CacheGet dataHash # evs @ [CacheValues]))))"

section \<open>The rule-based insight of the handler\<close>

definition generateFallbackInsight ::
  "ProductionData \<Rightarrow> EnergyData \<Rightarrow> WeatherData \<Rightarrow> InsightResponse" where
  "generateFallbackInsight p e w =
     (if temp w \<ge> 100 then
        \<lparr>summary = ''Extreme heat conditions detected'',
         recommendation = ''Consider shifting operations to cooler hours to reduce energy costs''\<rparr>
      else if etrend e = Up then
        \<lparr>summary = ''Energy costs trending upward'',
         recommendation = ''Optimize energy usage and consider off-peak scheduling''\<rparr>
      else if alert w \<noteq> ''none'' \<and> alert w \<noteq> ''Weather data unavailable'' then
        \<lparr>summary = ''Weather alert active'',
         recommendation = ''Monitor weather conditions and prepare contingency plans''\<rparr>
      else if str_includes (ptrend p) arrow_down then
        \<lparr>summary = ''Production index declining'',
         recommendation = ''Review production processes and identify improvement opportunities''\<rparr>
      else if str_includes (ptrend p) arrow_up then
        \<lparr>summary = ''Production performing well'',
         recommendation = ''Maintain current efficiency while monitoring energy costs''\<rparr>
      else
        \<lparr>summary = ''Data analysis temporarily unavailable'',
         recommendation = ''Monitor key metrics and adjust operations as needed''\<rparr>)"

section \<open>The source fetchers\<close>

text \<open>
  Each fetcher reads its own \<open>SimpleCache\<close>, then its credential, then runs its \<open>try\<close>
  block. The missing credential is thrown before the \<open>try\<close> and reaches the caller
  (\<open>Inl\<close>); every error thrown inside the \<open>try\<close> is caught and replaced by the
  fallback literal. A reply body is given with the type its interface declares, the
  optional parts as options.
\<close>

subsection \<open>Production index (fetchFred.ts)\<close>

text \<open>An observation; \<open>obs_date\<close> is \<open>new Date(date).getTime()\<close>.\<close>

record FredObservation =
  obs_date :: int
  obs_value :: string

record fred_env =
  FRED_API_KEY :: "string option"
  fred_reply :: "FredObservation list option upstream"

definition FRED_CACHE_TTL :: int where
  "FRED_CACHE_TTL = 60 * 60 * 1000"

definition FRED_CACHE_KEY :: string where
  "FRED_CACHE_KEY = ''fred_production_index''"

definition production_fallback :: ProductionData where
  "production_fallback = \<lparr>index = 102.4, ptrend = arrow_right @ '' Data unavailable''\<rparr>"

text \<open>The label of the month-over-month change, from the valid observations.\<close>

definition production_trend :: "js_lib \<Rightarrow> real \<Rightarrow> FredObservation list \<Rightarrow> string" where
  "production_trend L latestValue validObservations =
     (case validObservations of
        o0 # o1 # rest \<Rightarrow>
          (case parseFloat L (obs_value o1) of
             Some previousValue \<Rightarrow>
               if previousValue \<noteq> 0 then
                 (let percentChange = ((latestValue - previousValue) / previousValue) * 100;
                      sign = (if percentChange > 0 then arrow_up
                              else if percentChange < 0 then arrow_down else arrow_right)
                  in sign @ '' '' @ toFixed1 L \<bar>percentChange\<bar> @ ''% MoM'')
               else arrow_right @ '' No data''
           | None \<Rightarrow> arrow_right @ '' No data'')
      | _ \<Rightarrow> arrow_right @ '' No data'')"

text \<open>The \<open>try\<close> block of \<open>getProductionIndex\<close>.\<close>

definition productionRequest :: "js_lib \<Rightarrow> fred_env \<Rightarrow> error + ProductionData" where
  "productionRequest L env =
     (case fred_reply env of
        Rejected \<Rightarrow> Inl FetchRejected
      | Responded st body \<Rightarrow>
          if \<not> response_ok st then Inl (ApiError st)
          else
            (case body of
               None \<Rightarrow> Inl BodyNotJson
             | Some None \<Rightarrow> Inl NoData
             | Some (Some observations) \<Rightarrow>
                 if length observations = 0 then Inl NoData
                 else
                   (let validObservations =
                          sort_key (\<lambda>obs. - obs_date obs)
                            (filter (\<lambda>obs. obs_value obs \<noteq> ''.'') observations)
                    in case validObservations of
                         [] \<Rightarrow> Inl NoValidData
                       | o0 # rest \<Rightarrow>
                           (case parseFloat L (obs_value o0) of
                              None \<Rightarrow> Inl InvalidValue
                            | Some latestValue \<Rightarrow>
                                Inr \<lparr>index = round1 latestValue,
                                     ptrend = production_trend L latestValue validObservations\<rparr>))))"

definition getProductionIndex ::
  "js_lib \<Rightarrow> fred_env \<Rightarrow> int \<Rightarrow> ProductionData SimpleCache
   \<Rightarrow> (error + ProductionData) \<times> ProductionData SimpleCache" where
  "getProductionIndex L env now cache =
     (let (cachedData, cache1) = SimpleCache_get cache FRED_CACHE_KEY now
      in case cachedData of
           Some hit \<Rightarrow> (Inr hit, cache1)
         | None \<Rightarrow>
             if FRED_API_KEY env = None \<or> FRED_API_KEY env = Some [] then (Inl ApiKeyRequired, cache1)
             else
               (case productionRequest L env of
                  Inr result \<Rightarrow> (Inr result, SimpleCache_set cache1 FRED_CACHE_KEY result FRED_CACHE_TTL now)
                | Inl err \<Rightarrow> (Inr production_fallback, cache1)))"

subsection \<open>Electricity price (fetchEia.ts)\<close>

text \<open>
  A monthly data point; \<open>point_value\<close> is \<open>None\<close> for \<open>null\<close> and for \<open>NaN\<close>, and the
  periods are numbered in the order \<open>localeCompare\<close> gives them.
\<close>

record EiaDataPoint =
  period :: int
  point_value :: "real option"

record eia_env =
  EIA_API_KEY :: "string option"
  eia_reply :: "EiaDataPoint list option list option upstream"

definition EIA_CACHE_TTL :: int where
  "EIA_CACHE_TTL = 10 * 60 * 1000"

definition EIA_CACHE_KEY :: string where
  "EIA_CACHE_KEY = ''eia_texas_electricity_price''"

definition energy_fallback :: EnergyData where
  "energy_fallback = \<lparr>centsPerKwh = 12.5, etrend = Stable\<rparr>"

definition energy_trend :: "real \<Rightarrow> real list \<Rightarrow> Trend" where
  "energy_trend latestPrice sortedData =
     (case sortedData of
        v0 # previousPrice # rest \<Rightarrow>
          if previousPrice > 0 then
            (let percentChange = ((latestPrice - previousPrice) / previousPrice) * 100
             in if percentChange > 2 then Up
                else if percentChange < - 2 then Down
                else Stable)
          else Stable
      | _ \<Rightarrow> Stable)"

text \<open>The \<open>try\<close> block of \<open>getEnergyPrice\<close>.\<close>

definition energyRequest :: "eia_env \<Rightarrow> error + EnergyData" where
  "energyRequest env =
     (case eia_reply env of
        Rejected \<Rightarrow> Inl FetchRejected
      | Responded st body \<Rightarrow>
          if \<not> response_ok st then
            Inl (if st = 429 then RateLimitExceeded
                 else if st = 403 then AccessDenied
                 else ApiError st)
          else
            (case body of
               None \<Rightarrow> Inl BodyNotJson
             | Some None \<Rightarrow> Inl NoData
             | Some (Some []) \<Rightarrow> Inl NoData
             | Some (Some (None # series)) \<Rightarrow> Inl NoValidData
             | Some (Some (Some priceData # series)) \<Rightarrow>
                 if length priceData = 0 then Inl NoValidData
                 else
                   (let sortedData =
                          map (\<lambda>point. case point_value point of Some v \<Rightarrow> v | None \<Rightarrow> 0)
                            (sort_key (\<lambda>point. - period point)
                               (filter (\<lambda>point. point_value point \<noteq> None) priceData))
                    in case sortedData of
                         [] \<Rightarrow> Inl NoValidData
                       | latestPrice # rest \<Rightarrow>
                           if latestPrice \<le> 0 then Inl InvalidValue
                           else Inr \<lparr>centsPerKwh = round2 latestPrice,
                                     etrend = energy_trend latestPrice sortedData\<rparr>)))"

definition getEnergyPrice ::
  "eia_env \<Rightarrow> int \<Rightarrow> EnergyData SimpleCache \<Rightarrow> (error + EnergyData) \<times> EnergyData SimpleCache" where
  "getEnergyPrice env now cache =
     (let (cachedData, cache1) = SimpleCache_get cache EIA_CACHE_KEY now
      in case cachedData of
           Some hit \<Rightarrow> (Inr hit, cache1)
         | None \<Rightarrow>
             if EIA_API_KEY env = None \<or> EIA_API_KEY env = Some [] then (Inl ApiKeyRequired, cache1)
             else
               (case energyRequest env of
                  Inr result \<Rightarrow> (Inr result, SimpleCache_set cache1 EIA_CACHE_KEY result EIA_CACHE_TTL now)
                | Inl err \<Rightarrow> (Inr energy_fallback, cache1)))"

subsection \<open>Local weather (fetchWeather.ts)\<close>

record WeatherCondition =
  cond_id :: int
  cond_main :: string
  cond_description :: string

text \<open>An upstream alert; a missing \<open>event\<close> or \<open>description\<close> is the empty string.\<close>

record WeatherAlert =
  event_name :: string
  alert_description :: string

text \<open>
  The body of the reply: \<open>main_temp\<close> is \<open>data.main?.temp\<close>, \<open>conditions\<close> is
  \<open>data.weather\<close>, \<open>alerts\<close> is \<open>data.alerts\<close>.
\<close>

record WeatherResponse =
  main_temp :: "real option"
  conditions :: "WeatherCondition list option"
  alerts :: "WeatherAlert list option"

record weather_env =
  WEATHER_API_KEY :: "string option"
  weather_reply :: "WeatherResponse upstream"

definition WEATHER_CACHE_TTL :: int where
  "WEATHER_CACHE_TTL = 15 * 60 * 1000"

definition WEATHER_CACHE_KEY :: string where
  "WEATHER_CACHE_KEY = ''el_paso_weather''"

definition weather_fallback :: WeatherData where
  "weather_fallback = \<lparr>temp = 75, alert = ''Weather data unavailable''\<rparr>"

definition severeWeatherIds :: "int list" where
  "severeWeatherIds =
     [200, 201, 202, 210, 211, 212, 221, 230, 231, 232,
      502, 503, 504, 511, 522, 531,
      602, 622,
      711, 721, 731, 741, 751, 761, 762, 771, 781]"

text \<open>
  The value of \<open>alertMessage\<close> at the end of the alert checks, for the rounded
  temperature and the body.
\<close>

definition alertMessage :: "real \<Rightarrow> WeatherResponse \<Rightarrow> string" where
  "alertMessage temperature body =
     (let local =
            (case conditions body of
               Some (mainWeather # others) \<Rightarrow>
                 (let severe = (if cond_id mainWeather \<in> set severeWeatherIds
                                then cond_main mainWeather @ '': '' @ cond_description mainWeather
                                else ''none'')
                  in if temperature \<ge> 100 then ''Extreme heat warning''
                     else if temperature \<le> 32 then ''Freezing temperature alert''
                     else severe)
             | _ \<Rightarrow> ''none'')
      in case alerts body of
           Some (activeAlert # others) \<Rightarrow>
             if event_name activeAlert \<noteq> [] then event_name activeAlert
             else if alert_description activeAlert \<noteq> [] then alert_description activeAlert
             else ''Weather alert active''
         | _ \<Rightarrow> local)"

text \<open>The \<open>try\<close> block of \<open>getLocalWeather\<close>.\<close>

definition weatherRequest :: "weather_env \<Rightarrow> error + WeatherData" where
  "weatherRequest env =
     (case weather_reply env of
        Rejected \<Rightarrow> Inl FetchRejected
      | Responded st body \<Rightarrow>
          if \<not> response_ok st then
            Inl (if st = 401 then InvalidApiKey
                 else if st = 429 then RateLimitExceeded
                 else if st = 404 then LocationNotFound
                 else ApiError st)
          else
            (case body of
               None \<Rightarrow> Inl BodyNotJson
             | Some wr \<Rightarrow>
                 (case main_temp wr of
                    None \<Rightarrow> Inl NoData
                  | Some t \<Rightarrow>
                      if t = 0 then Inl NoData
                      else
                        (let temperature = Math_round t
                         in Inr \<lparr>temp = temperature, alert = alertMessage temperature wr\<rparr>))))"

definition getLocalWeather ::
  "weather_env \<Rightarrow> int \<Rightarrow> WeatherData SimpleCache \<Rightarrow> (error + WeatherData) \<times> WeatherData SimpleCache" where
  "getLocalWeather env now cache =
     (let (cachedData, cache1) = SimpleCache_get cache WEATHER_CACHE_KEY now
      in case cachedData of
           Some hit \<Rightarrow> (Inr hit, cache1)
         | None \<Rightarrow>
             if WEATHER_API_KEY env = None \<or> WEATHER_API_KEY env = Some [] then (Inl ApiKeyRequired, cache1)
             else
               (case weatherRequest env of
                  Inr result \<Rightarrow> (Inr result, SimpleCache_set cache1 WEATHER_CACHE_KEY result WEATHER_CACHE_TTL now)
                | Inl err \<Rightarrow> (Inr weather_fallback, cache1)))"

section \<open>The aggregation handler (pages/api/dashboard.ts)\<close>

subsection \<open>DashboardCache\<close>

record 'a DataCacheEntry =
  entry_data :: 'a
  lastFetched :: int
  data_expires :: int

record InsightCacheEntry =
  insight :: InsightResponse
  dataHash :: string
  lastInsightRun :: int
  insight_expires :: int

text \<open>
  \<open>dataCache\<close> is read and written at the three keys \<open>'fred'\<close>, \<open>'eia'\<close> and
  \<open>'weather'\<close> only, each holding the data of its source: it is modelled by one typed
  entry per key. \<open>insightCache\<close> is the map keyed by the fingerprint. Time stamps
  (\<open>toISOString()\<close>) are the milliseconds they denote.
\<close>

record DashboardCache =
  fred_entry :: "ProductionData DataCacheEntry option"
  eia_entry :: "EnergyData DataCacheEntry option"
  weather_entry :: "WeatherData DataCacheEntry option"
  insightCache :: "(string, InsightCacheEntry) jsmap"

definition FRED_TTL :: int where
  "FRED_TTL = 60 * 60 * 1000"

definition EIA_TTL :: int where
  "EIA_TTL = 10 * 60 * 1000"

definition WEATHER_TTL :: int where
  "WEATHER_TTL = 15 * 60 * 1000"

definition INSIGHT_TTL :: int where
  "INSIGHT_TTL = 30 * 60 * 1000"

definition getTTL :: "string \<Rightarrow> int" where
  "getTTL source =
     (if source = ''fred'' then FRED_TTL
      else if source = ''eia'' then EIA_TTL
      else if source = ''weather'' then WEATHER_TTL
      else EIA_TTL)"

text \<open>\<open>setData\<close> and \<open>getData\<close> on the entry of one key.\<close>

definition setData :: "'a \<Rightarrow> int \<Rightarrow> int \<Rightarrow> 'a DataCacheEntry option" where
  "setData d ttl now = Some \<lparr>entry_data = d, lastFetched = now, data_expires = now + ttl\<rparr>"

definition getData ::
  "'a DataCacheEntry option \<Rightarrow> int \<Rightarrow> 'a DataCacheEntry option \<times> 'a DataCacheEntry option" where
  "getData entry now =
     (case entry of
        None \<Rightarrow> (None, None)
      | Some item \<Rightarrow> if now > data_expires item then (None, None) else (Some item, Some item))"

definition setInsight ::
  "(string, InsightCacheEntry) jsmap \<Rightarrow> string \<Rightarrow> InsightResponse \<Rightarrow> int
   \<Rightarrow> (string, InsightCacheEntry) jsmap" where
  "setInsight ic h ins now =
     mapSet ic h \<lparr>insight = ins, dataHash = h, lastInsightRun = now, insight_expires = now + INSIGHT_TTL\<rparr>"

definition getInsight ::
  "(string, InsightCacheEntry) jsmap \<Rightarrow> string \<Rightarrow> int
   \<Rightarrow> InsightCacheEntry option \<times> (string, InsightCacheEntry) jsmap" where
  "getInsight ic h now =
     (case mapGet ic h of
        None \<Rightarrow> (None, mapDelete ic h)
      | Some item \<Rightarrow>
          if now > insight_expires item then (None, mapDelete ic h) else (Some item, ic))"

text \<open>The loop of \<open>getLatestInsight\<close>: the state is \<open>(latest, latestTime)\<close>.\<close>

fun latest_loop ::
  "(string, InsightCacheEntry) jsmap \<Rightarrow> InsightCacheEntry option \<times> int
   \<Rightarrow> InsightCacheEntry option \<times> int" where
  "latest_loop [] acc = acc"
| "latest_loop ((k, entry) # rest) (latest, latestTime) =
     (if lastInsightRun entry > latestTime then latest_loop rest (Some entry, lastInsightRun entry)
      else latest_loop rest (latest, latestTime))"

definition getLatestInsight :: "(string, InsightCacheEntry) jsmap \<Rightarrow> InsightCacheEntry option" where
  "getLatestInsight ic = fst (latest_loop ic (None, 0))"

subsection \<open>Fetching the three sources\<close>

text \<open>
  \<open>fetchWithCache(source, fetchFn, fallback)\<close> on the entry of \<open>source\<close>; \<open>fetchFn\<close>
  works on a state \<open>st\<close> of its own (the fetcher's cache). The result is the settled
  promise: \<open>Inr\<close> when fulfilled, with the data and its \<open>lastFetched\<close>.
\<close>

definition fetchWithCache ::
  "string \<Rightarrow> ('s \<Rightarrow> (error + 'a) \<times> 's) \<Rightarrow> 'a \<Rightarrow> int \<Rightarrow> 'a DataCacheEntry option \<Rightarrow> 's
   \<Rightarrow> (error + 'a \<times> int) \<times> 'a DataCacheEntry option \<times> 's" where
  "fetchWithCache source fetchFn fallback now entry st =
     (case getData entry now of
        (Some cached, entry1) \<Rightarrow> (Inr (entry_data cached, lastFetched cached), entry1, st)
      | (None, entry1) \<Rightarrow>
          (case fetchFn st of
             (Inr d, st') \<Rightarrow>
               (let entry2 = setData d (getTTL source) now;
                    (cachedEntry, entry3) = getData entry2 now
                in (Inr (d, case cachedEntry of Some c \<Rightarrow> lastFetched c | None \<Rightarrow> now), entry3, st'))
           | (Inl err, st') \<Rightarrow> (Inr (fallback, now), entry1, st')))"

text \<open>The state of the process: the caches of the four modules and of the handler.\<close>

record world =
  fredCache :: "ProductionData SimpleCache"
  eiaCache :: "EnergyData SimpleCache"
  weatherCache :: "WeatherData SimpleCache"
  insightModuleCache :: "InsightResponse SimpleCache"
  dashboardCache :: DashboardCache

text \<open>
  What one request meets: the query parameter \<open>refresh\<close>, the environment of each
  outbound call, and the place, if any, where code that is taken to be total throws.
\<close>

datatype stage = BeforeFetch | AfterFetch | BeforeRespond

record request_env =
  refresh :: "string option"
  production_env :: fred_env
  energy_env :: eia_env
  local_weather_env :: weather_env
  ai_env :: insight_env
  throws_at :: "stage option"

record fetched =
  f_production :: ProductionData
  f_energy :: EnergyData
  f_weather :: WeatherData
  f_lastFetched :: int

text \<open>\<open>Math.max(...ts)\<close> of a list that is not empty.\<close>

fun max_of :: "int list \<Rightarrow> int" where
  "max_of [] = 0"
| "max_of (t # ts) = fold max ts t"

text \<open>The time stamp a settled result contributes: \<open>null\<close> when rejected.\<close>

definition settled_timestamp :: "(error + 'a \<times> int) \<Rightarrow> int option" where
  "settled_timestamp r = (case r of Inr v \<Rightarrow> Some (snd v) | Inl err \<Rightarrow> None)"

definition settled_data :: "(error + 'a \<times> int) \<Rightarrow> 'a \<Rightarrow> 'a" where
  "settled_data r fallback = (case r of Inr v \<Rightarrow> fst v | Inl err \<Rightarrow> fallback)"

definition fetchAllData :: "js_lib \<Rightarrow> request_env \<Rightarrow> int \<Rightarrow> world \<Rightarrow> fetched \<times> world" where
  "fetchAllData L env now w =
     (let dc = dashboardCache w;
          (productionResult, fredE, fredC) =
             fetchWithCache ''fred'' (getProductionIndex L (production_env env) now)
               \<lparr>index = 102.4, ptrend = arrow_right @ '' Data unavailable''\<rparr> now (fred_entry dc) (fredCache w);
          (energyResult, eiaE, eiaC) =
             fetchWithCache ''eia'' (getEnergyPrice (energy_env env) now)
               \<lparr>centsPerKwh = 12.5, etrend = Stable\<rparr> now (eia_entry dc) (eiaCache w);
          (weatherResult, weatherE, weatherC) =
             fetchWithCache ''weather'' (getLocalWeather (local_weather_env env) now)
               \<lparr>temp = 75, alert = ''Weather data unavailable''\<rparr> now (weather_entry dc) (weatherCache w);
          timestamps = List.map_filter id
             [settled_timestamp productionResult, settled_timestamp energyResult,
              settled_timestamp weatherResult]
      in (\<lparr>f_production = settled_data productionResult
                \<lparr>index = 102.4, ptrend = arrow_right @ '' Data unavailable''\<rparr>,
           f_energy = settled_data energyResult \<lparr>centsPerKwh = 12.5, etrend = Stable\<rparr>,
           f_weather = settled_data weatherResult \<lparr>temp = 75, alert = ''Weather data unavailable''\<rparr>,
           f_lastFetched = (if length timestamps > 0 then max_of timestamps else now)\<rparr>,
          w\<lparr>fredCache := fredC, eiaCache := eiaC, weatherCache := weatherC,
            dashboardCache := dc\<lparr>fred_entry := fredE, eia_entry := eiaE, weather_entry := weatherE\<rparr>\<rparr>))"

subsection \<open>The handler\<close>

record DashboardResponse =
  r_production :: ProductionData
  r_energy :: EnergyData
  r_weather :: WeatherData
  r_insight :: InsightResponse
  r_lastFetched :: int
  r_lastInsightRun :: "int option"

text \<open>
  The inner \<open>try\<close>/\<open>catch\<close> of the handler, for the outcome of
  \<open>await analyzeInsight(...)\<close>: the insight, \<open>lastInsightRun\<close> and the insight cache
  afterwards.
\<close>

definition updateInsight ::
  "(error + InsightResponse) \<Rightarrow> string \<Rightarrow> ProductionData \<Rightarrow> EnergyData \<Rightarrow> WeatherData \<Rightarrow> int
   \<Rightarrow> (string, InsightCacheEntry) jsmap
   \<Rightarrow> (InsightResponse \<times> int option) \<times> (string, InsightCacheEntry) jsmap" where
  "updateInsight outcome currentDataHash p e w now ic =
     (case outcome of
        Inr ins \<Rightarrow>
          (let ic1 = setInsight ic currentDataHash ins now;
               (newCachedInsight, ic2) = getInsight ic1 currentDataHash now
           in ((ins, Some (case newCachedInsight of Some c \<Rightarrow> lastInsightRun c | None \<Rightarrow> now)), ic2))
      | Inl err \<Rightarrow>
          (case getLatestInsight ic of
             Some latestInsight \<Rightarrow> ((insight latestInsight, Some (lastInsightRun latestInsight)), ic)
           | None \<Rightarrow> ((generateFallbackInsight p e w, None), ic)))"

text \<open>
  The outer \<open>try\<close> block. \<open>needsInsightUpdate\<close> is \<open>served = None\<close>: the cached
  insight is served when there is one and no manual refresh is asked for.
  \<open>analyzeInsight\<close> returns in every case, so the outcome of awaiting it is \<open>Inr\<close>.
\<close>

definition handler_try ::
  "js_lib \<Rightarrow> request_env \<Rightarrow> int \<Rightarrow> world \<Rightarrow> (error + DashboardResponse) \<times> world" where
  "handler_try L env now w =
     (if throws_at env = Some BeforeFetch then (Inl Unexpected, w)
      else
        let isManualRefresh = (refresh env = Some ''true'');
            (fd, w1) = fetchAllData L env now w
        in
          if throws_at env = Some AfterFetch then (Inl Unexpected, w1)
          else
            let currentDataHash =
                  generateDataHash_handler L (f_production fd) (f_energy fd) (f_weather fd);
                (cachedInsight, ic1) = getInsight (insightCache (dashboardCache w1)) currentDataHash now;
                served = (if isManualRefresh then None else cachedInsight);
                ((ins, run), ic2, imc) =
                  (case served of
                     None \<Rightarrow>
                       (let (generated, imc', evs) =
                              analyzeInsight L (ai_env env) now (insightModuleCache w1)
                                (insight_argument (f_production fd) (f_energy fd) (f_weather fd));
                            (res, ic') = updateInsight (Inr generated) currentDataHash
                                           (f_production fd) (f_energy fd) (f_weather fd) now ic1
                        in (res, ic', imc'))
                   | Some c \<Rightarrow>
                       ((insight c, Some (lastInsightRun c)), ic1, insightModuleCache w1));
                w2 = w1\<lparr>insightModuleCache := imc,
                        dashboardCache := (dashboardCache w1)\<lparr>insightCache := ic2\<rparr>\<rparr>
            in
              if throws_at env = Some BeforeRespond then (Inl Unexpected, w2)
              else (Inr \<lparr>r_production = f_production fd, r_energy = f_energy fd,
                         r_weather = f_weather fd, r_insight = ins,
                         r_lastFetched = f_lastFetched fd, r_lastInsightRun = run\<rparr>, w2))"

definition fallbackResponse :: "int \<Rightarrow> DashboardResponse" where
  "fallbackResponse now =
     \<lparr>r_production = \<lparr>index = 102.4, ptrend = arrow_right @ '' Data unavailable''\<rparr>,
      r_energy = \<lparr>centsPerKwh = 12.5, etrend = Stable\<rparr>,
      r_weather = \<lparr>temp = 75, alert = ''Data unavailable''\<rparr>,
      r_insight = \<lparr>summary = ''System temporarily unavailable'',
                   recommendation = ''Please try refreshing in a few minutes''\<rparr>,
      r_lastFetched = now,
      r_lastInsightRun = None\<rparr>"

text \<open>The handler: the HTTP status, the payload, and the state afterwards.\<close>

definition handler :: "js_lib \<Rightarrow> request_env \<Rightarrow> int \<Rightarrow> world \<Rightarrow> (nat \<times> DashboardResponse) \<times> world" where
  "handler L env now w =
     (case handler_try L env now w of
        (Inr response, w') \<Rightarrow> ((200, response), w')
      | (Inl err, w') \<Rightarrow> ((200, fallbackResponse now), w'))"

section \<open>The examples\<close>

text \<open>
  Concrete inputs for the examples: an instance of the library functions, a metric
  triple, a text-generation API that answers and one that does not, and the insight
  cache a first successful call at time 0 leaves behind.
\<close>

definition example_lib :: js_lib where
  "example_lib =
     \<lparr>md5_hex = (\<lambda>s. ''md5:'' @ s), sha1_hex = (\<lambda>s. ''sha1:'' @ s),
      numberToString = (\<lambda>r. ''0''),
      quoteJSONString = (\<lambda>s. s),
      JSON_parse = (\<lambda>s. if s = ''{ok}''
                          then Some (JObj [(''summary'', JStr ''Costs rising''),
                                           (''recommendation'', JStr ''Shift load'')])
                          else None),
      parseFloat = (\<lambda>s. if s = ''103.2'' then Some 103.2 else if s = ''102.0'' then Some 102 else None),
      toFixed1 = (\<lambda>r. ''1.2''),
      str_trim = (\<lambda>s. s),
      substring0 = take\<rparr>"

definition example_production :: ProductionData where
  "example_production = \<lparr>index = 102.5, ptrend = ''steady''\<rparr>"

definition example_energy :: EnergyData where
  "example_energy = \<lparr>centsPerKwh = 12.8, etrend = Up\<rparr>"

definition example_weather :: WeatherData where
  "example_weather = \<lparr>temp = 95, alert = ''none''\<rparr>"

definition example_input :: jsval where
  "example_input = insight_argument example_production example_energy example_weather"

definition claude_up :: insight_env where
  "claude_up = \<lparr>CLAUDE_API_KEY = Some ''key'', claude_reply = Responded 200 (Some (Some ''Here: {ok}''))\<rparr>"

definition claude_down :: insight_env where
  "claude_down = \<lparr>CLAUDE_API_KEY = Some ''key'', claude_reply = Rejected\<rparr>"

definition cache_after_success :: "InsightResponse SimpleCache" where
  "cache_after_success = fst (snd (analyzeInsight example_lib claude_up 0 [] example_input))"




definition weather_hot_with_alert :: weather_env where
  "weather_hot_with_alert =
     \<lparr>WEATHER_API_KEY = Some ''key'',
      weather_reply = Responded 200 (Some
        \<lparr>main_temp = Some 101.3,
         conditions = Some [\<lparr>cond_id = 211, cond_main = ''Thunderstorm'', cond_description = ''thunderstorm''\<rparr>],
         alerts = Some [\<lparr>event_name = ''Flood Watch'', alert_description = ''Flooding possible''\<rparr>]\<rparr>)\<rparr>"

definition weather_hot_no_condition :: weather_env where
  "weather_hot_no_condition =
     \<lparr>WEATHER_API_KEY = Some ''key'',
      weather_reply = Responded 200 (Some \<lparr>main_temp = Some 105.2, conditions = Some [], alerts = None\<rparr>)\<rparr>"

text \<open>
  The metrics the handler passes on when the weather fetch has fallen back and the
  production index is going down.
\<close>

definition declining_production :: ProductionData where
  "declining_production = \<lparr>index = 101.9, ptrend = arrow_down @ '' 0.5% MoM''\<rparr>"

definition input_without_weather :: InsightInput where
  "input_without_weather =
     \<lparr>production = declining_production, energy = energy_fallback, weather = weather_fallback\<rparr>"


text \<open>
  Two requests for the examples: the credential of the production source is missing,
  energy and weather answer, the text-generation API does not; in the second an
  unexpected exception is thrown after the fetches.
\<close>

definition empty_world :: world where
  "empty_world =
     \<lparr>fredCache = [], eiaCache = [], weatherCache = [], insightModuleCache = [],
      dashboardCache = \<lparr>fred_entry = None, eia_entry = None, weather_entry = None, insightCache = []\<rparr>\<rparr>"

definition eia_up :: eia_env where
  "eia_up =
     \<lparr>EIA_API_KEY = Some ''key'',
      eia_reply = Responded 200 (Some (Some [Some [\<lparr>period = 2, point_value = Some 12.1\<rparr>,
                                                   \<lparr>period = 1, point_value = Some 12\<rparr>]]))\<rparr>"

definition weather_up :: weather_env where
  "weather_up =
     \<lparr>WEATHER_API_KEY = Some ''key'',
      weather_reply = Responded 200 (Some
        \<lparr>main_temp = Some 88.4,
         conditions = Some [\<lparr>cond_id = 800, cond_main = ''Clear'', cond_description = ''clear sky''\<rparr>],
         alerts = None\<rparr>)\<rparr>"

definition request_without_fred_key :: request_env where
  "request_without_fred_key =
     \<lparr>refresh = None,
      production_env = \<lparr>FRED_API_KEY = None, fred_reply = Rejected\<rparr>,
      energy_env = eia_up,
      local_weather_env = weather_up,
      ai_env = claude_down,
      throws_at = None\<rparr>"

definition world_after_first_request :: world where
  "world_after_first_request = snd (handler example_lib request_without_fred_key 1000 empty_world)"


section \<open>Properties of the maps\<close>

lemma mapGet_mapSet_same: "mapGet (mapSet m k v) k = Some v"
  by (induction m) auto

lemma mapGet_mapSet_other: "k' \<noteq> k \<Longrightarrow> mapGet (mapSet m k v) k' = mapGet m k'"
  by (induction m) auto

lemma mapGet_mapDelete_same: "mapGet (mapDelete m k) k = None"
  by (induction m) auto

lemma mapGet_mapDelete_other: "k' \<noteq> k \<Longrightarrow> mapGet (mapDelete m k) k' = mapGet m k'"
  by (induction m) auto

section \<open>The TTL contract\<close>

lemma SimpleCache_get_fresh:
  "now \<le> t0 + T \<Longrightarrow>
   SimpleCache_get (SimpleCache_set c k v T t0) k now = (Some v, SimpleCache_set c k v T t0)"
  by (simp add: SimpleCache_get_def SimpleCache_set_def mapGet_mapSet_same)

lemma SimpleCache_get_expired:
  "t0 + T < now \<Longrightarrow>
   SimpleCache_get (SimpleCache_set c k v T t0) k now
     = (None, mapDelete (SimpleCache_set c k v T t0) k)"
  by (simp add: SimpleCache_get_def SimpleCache_set_def mapGet_mapSet_same)

lemma SimpleCache_get_deleted: "SimpleCache_get (mapDelete c k) k now = (None, mapDelete c k)"
  by (simp add: SimpleCache_get_def mapGet_mapDelete_same)

lemma InsightCache_get_eq: "InsightCache_get c k now = SimpleCache_get c k now"
  by (simp add: InsightCache_get_def SimpleCache_get_def)

lemma InsightCache_set_eq: "InsightCache_set c k v t0 = SimpleCache_set c k v INSIGHT_CACHE_TTL t0"
  by (simp add: InsightCache_set_def SimpleCache_set_def)

text \<open>
  Claim C3, as the code has it. After \<open>set(k, v, T)\<close> at time \<open>t0\<close>, \<open>get(k)\<close> returns
  \<open>v\<close> at every time \<open>now\<close> with \<open>now - t0 \<le> T\<close> and reports absent at every time with
  \<open>now - t0 > T\<close>; a read past expiry deletes the entry, so that the next \<open>get(k)\<close>, at
  any time and without a \<open>set\<close> in between, reports absent too. The same holds of
  \<open>InsightCache\<close> with its fixed TTL.
\<close>

theorem ttl_cache_contract:
  "(now - t0 \<le> T \<longrightarrow> fst (SimpleCache_get (SimpleCache_set c k v T t0) k now) = Some v)
   \<and> (now - t0 > T \<longrightarrow>
        fst (SimpleCache_get (SimpleCache_set c k v T t0) k now) = None
        \<and> fst (SimpleCache_get (snd (SimpleCache_get (SimpleCache_set c k v T t0) k now)) k later) = None)
   \<and> (now - t0 \<le> INSIGHT_CACHE_TTL \<longrightarrow>
        fst (InsightCache_get (InsightCache_set c k v t0) k now) = Some v)
   \<and> (now - t0 > INSIGHT_CACHE_TTL \<longrightarrow>
        fst (InsightCache_get (InsightCache_set c k v t0) k now) = None
        \<and> fst (InsightCache_get (snd (InsightCache_get (InsightCache_set c k v t0) k now)) k later) = None)"
proof -
  have fresh: "fst (SimpleCache_get (SimpleCache_set c k v U t0) k now) = Some v"
    if "now - t0 \<le> U" for U
  proof -
    from that have "now \<le> t0 + U" by simp
    then show ?thesis by (simp add: SimpleCache_get_fresh)
  qed
  have stale: "fst (SimpleCache_get (SimpleCache_set c k v U t0) k now) = None
      \<and> fst (SimpleCache_get (snd (SimpleCache_get (SimpleCache_set c k v U t0) k now)) k later) = None"
    if "now - t0 > U" for U
  proof -
    from that have "t0 + U < now" by simp
    then show ?thesis by (simp add: SimpleCache_get_expired SimpleCache_get_deleted)
  qed
  show ?thesis
    using fresh stale by (simp add: InsightCache_get_eq InsightCache_set_eq)
qed

theorem ttl_cache_contract_witness:
  "(10::int) - 0 \<le> 10
   \<and> fst (SimpleCache_get (SimpleCache_set [] ''k'' (7::nat) 10 0) ''k'' 10) = Some 7
   \<and> (11::int) - 0 > 10
   \<and> fst (SimpleCache_get (SimpleCache_set [] ''k'' (7::nat) 10 0) ''k'' 11) = None
   \<and> fst (SimpleCache_get (snd (SimpleCache_get (SimpleCache_set [] ''k'' (7::nat) 10 0) ''k'' 11)) ''k'' 5) = None
   \<and> (1800000::int) - 0 \<le> INSIGHT_CACHE_TTL
   \<and> fst (InsightCache_get (InsightCache_set [] ''k'' (7::nat) 0) ''k'' 1800000) = Some 7
   \<and> (1800001::int) - 0 > INSIGHT_CACHE_TTL
   \<and> fst (InsightCache_get (InsightCache_set [] ''k'' (7::nat) 0) ''k'' 1800001) = None
   \<and> fst (InsightCache_get (snd (InsightCache_get (InsightCache_set [] ''k'' (7::nat) 0) ''k'' 1800001)) ''k'' 5) = None"
  using ttl_cache_contract [of 10 0 10 "[]" "''k''" "7::nat" 5]
    ttl_cache_contract [of 11 0 10 "[]" "''k''" "7::nat" 5]
    ttl_cache_contract [of 1800000 0 10 "[]" "''k''" "7::nat" 5]
    ttl_cache_contract [of 1800001 0 10 "[]" "''k''" "7::nat" 5]
  by (simp add: INSIGHT_CACHE_TTL_def)

text \<open>
  Claim C3 as worded puts the boundary one millisecond early: at \<open>now - t0 = T\<close> the
  entry is still served, because the test is \<open>Date.now() > item.expires\<close>.
\<close>

theorem ttl_cache_boundary_counterexample:
  "(10::int) - 0 \<ge> 10
   \<and> fst (SimpleCache_get (SimpleCache_set [] ''k'' (7::nat) 10 0) ''k'' 10) \<noteq> None"
  by (simp add: SimpleCache_get_def SimpleCache_set_def)


section \<open>The Data-Hash function is stable\<close>

lemma normalizedData_cong:
  "round1 (index pa) = round1 (index pb) \<Longrightarrow> ptrend pa = ptrend pb \<Longrightarrow>
   round2 (centsPerKwh ea) = round2 (centsPerKwh eb) \<Longrightarrow> etrend ea = etrend eb \<Longrightarrow>
   round_to_5 (temp wa) = round_to_5 (temp wb) \<Longrightarrow> alert wa = alert wb \<Longrightarrow>
   normalizedData pa ea wa = normalizedData pb eb wb"
  by (simp add: normalizedData_def)

text \<open>
  The replacer array \<open>['energy', 'production', 'weather']\<close> filters the nested objects
  too, whose keys are not in it: the serialised string, and so the fingerprint, is the
  same for every metric triple.
\<close>

lemma dataString_constant:
  "dataString L p e w =
     ''{'' @ quoteJSONString L ''energy'' @ '':{},'' @ quoteJSONString L ''production'' @ '':{},''
       @ quoteJSONString L ''weather'' @ '':{}}''"
  by (simp add: dataString_def normalizedData_def sorted_keys_def)

text \<open>
  Claim C7. Two metric triples whose normalised projections agree (production index
  rounded to one decimal, energy price rounded to two decimals, temperature rounded to
  the nearest 5 degrees, trend and alert strings identical) have the same fingerprint,
  in fetchInsight.ts and in the handler; the fingerprint is a function of the triple
  alone.
\<close>

theorem data_hash_stable:
  assumes "round1 (index pa) = round1 (index pb)" and "ptrend pa = ptrend pb"
    and "round2 (centsPerKwh ea) = round2 (centsPerKwh eb)" and "etrend ea = etrend eb"
    and "round_to_5 (temp wa) = round_to_5 (temp wb)" and "alert wa = alert wb"
  shows "generateDataHash L \<lparr>production = pa, energy = ea, weather = wa\<rparr>
           = generateDataHash L \<lparr>production = pb, energy = eb, weather = wb\<rparr>
         \<and> generateDataHash_handler L pa ea wa = generateDataHash_handler L pb eb wb"
proof -
  have "normalizedData pa ea wa = normalizedData pb eb wb"
    using assms by (rule normalizedData_cong)
  then have "dataString L pa ea wa = dataString L pb eb wb"
    by (simp add: dataString_def)
  then show ?thesis
    by (simp add: generateDataHash_def generateDataHash_handler_def)
qed

theorem data_hash_stable_witness:
  "round1 (index \<lparr>index = 102.44, ptrend = ''x''\<rparr>) = round1 (index \<lparr>index = 102.41, ptrend = ''x''\<rparr>)
   \<and> round2 (centsPerKwh \<lparr>centsPerKwh = 12.501, etrend = Up\<rparr>)
       = round2 (centsPerKwh \<lparr>centsPerKwh = 12.499, etrend = Up\<rparr>)
   \<and> round_to_5 (temp \<lparr>temp = 76, alert = ''none''\<rparr>) = round_to_5 (temp \<lparr>temp = 74, alert = ''none''\<rparr>)
   \<and> generateDataHash example_lib
        \<lparr>production = \<lparr>index = 102.44, ptrend = ''x''\<rparr>,
         energy = \<lparr>centsPerKwh = 12.501, etrend = Up\<rparr>,
         weather = \<lparr>temp = 76, alert = ''none''\<rparr>\<rparr>
       = generateDataHash example_lib
           \<lparr>production = \<lparr>index = 102.41, ptrend = ''x''\<rparr>,
            energy = \<lparr>centsPerKwh = 12.499, etrend = Up\<rparr>,
            weather = \<lparr>temp = 74, alert = ''none''\<rparr>\<rparr>
   \<and> generateDataHash_handler example_lib \<lparr>index = 102.44, ptrend = ''x''\<rparr>
        \<lparr>centsPerKwh = 12.501, etrend = Up\<rparr> \<lparr>temp = 76, alert = ''none''\<rparr>
       = generateDataHash_handler example_lib \<lparr>index = 102.41, ptrend = ''x''\<rparr>
           \<lparr>centsPerKwh = 12.499, etrend = Up\<rparr> \<lparr>temp = 74, alert = ''none''\<rparr>"
  using data_hash_stable [of "\<lparr>index = 102.44, ptrend = ''x''\<rparr>" "\<lparr>index = 102.41, ptrend = ''x''\<rparr>"
      "\<lparr>centsPerKwh = 12.501, etrend = Up\<rparr>" "\<lparr>centsPerKwh = 12.499, etrend = Up\<rparr>"
      "\<lparr>temp = 76, alert = ''none''\<rparr>" "\<lparr>temp = 74, alert = ''none''\<rparr>" example_lib]
  by (simp add: round1_def round2_def round_to_5_def Math_round_def)

section \<open>The rule-based insight\<close>

lemma fallback_extreme_heat:
  "temp (weather d) \<ge> 100 \<Longrightarrow> contextualFallback d =
     \<lparr>summary = ''Extreme heat conditions detected'',
      recommendation = ''Consider shifting operations to cooler hours to reduce energy costs''\<rparr>"
  "temp w \<ge> 100 \<Longrightarrow> generateFallbackInsight p e w =
     \<lparr>summary = ''Extreme heat conditions detected'',
      recommendation = ''Consider shifting operations to cooler hours to reduce energy costs''\<rparr>"
  by (simp_all add: contextualFallback_def generateFallbackInsight_def)

text \<open>
  The two rule-based insights agree wherever the alert is not the literal of the
  weather fallback.
\<close>

lemma fallbacks_agree:
  "alert w \<noteq> ''Weather data unavailable'' \<Longrightarrow>
   contextualFallback \<lparr>production = p, energy = e, weather = w\<rparr> = generateFallbackInsight p e w"
  by (simp add: contextualFallback_def generateFallbackInsight_def)

text \<open>
  Claim C8 speaks of one fixed priority order whose third rule is an active weather
  alert. Read as the handler's \<open>generateFallbackInsight\<close> has it, an alert is active
  when it is neither \<open>none\<close> nor the literal that stands for missing weather data. The
  rule-based insight of \<open>analyzeInsight\<close> misses the second test: for the weather
  fallback (75 degrees, "Weather data unavailable"), energy stable and a production
  trend going down it answers "Weather alert active", where the handler's function,
  on the same metrics, answers "Production index declining".
\<close>

theorem unavailable_weather_taken_for_alert:
  "contextualFallback input_without_weather =
     \<lparr>summary = ''Weather alert active'',
      recommendation = ''Monitor weather conditions and prepare contingency plans''\<rparr>
   \<and> generateFallbackInsight declining_production energy_fallback weather_fallback =
     \<lparr>summary = ''Production index declining'',
      recommendation = ''Review production processes and identify improvement opportunities''\<rparr>"
  by (simp add: contextualFallback_def generateFallbackInsight_def input_without_weather_def
      declining_production_def energy_fallback_def weather_fallback_def arrow_down_def)

theorem unavailable_weather_taken_for_alert_witness:
  "contextualFallback input_without_weather
     \<noteq> generateFallbackInsight declining_production energy_fallback weather_fallback"
  using unavailable_weather_taken_for_alert by simp

section \<open>The insight generator\<close>

lemma validateInputData_argument: "validateInputData (insight_argument p e w)"
  by (cases "etrend e") (simp_all add: validateInputData_def insight_argument_def)

lemma as_InsightInput_argument:
  "as_InsightInput (insight_argument p e w) = \<lparr>production = p, energy = e, weather = w\<rparr>"
  by (cases "etrend e") (simp_all add: as_InsightInput_def insight_argument_def trend_of_def)

lemma generateDataHash_example: "generateDataHash example_lib d = ''md5:{energy:{},production:{},weather:{}}''"
  by (simp add: generateDataHash_def dataString_constant example_lib_def)

lemma claude_up_result:
  "claudeRequest example_lib claude_up = (Inr \<lparr>summary = ''Costs rising'', recommendation = ''Shift load''\<rparr>, [ApiCall])"
  by (simp add: claudeRequest_def claude_up_def response_ok_def parseClaudeResponse_def match_braces_def
      example_lib_def)

lemma claude_down_result: "claudeRequest L claude_down = (Inl FetchRejected, [ApiCall])"
  by (simp add: claudeRequest_def claude_down_def)

lemma cache_after_success_eq:
  "cache_after_success =
     [(''md5:{energy:{},production:{},weather:{}}'',
       \<lparr>data = \<lparr>summary = ''Costs rising'', recommendation = ''Shift load''\<rparr>, expires = 1800000\<rparr>)]"
  by (simp add: cache_after_success_def analyzeInsight_def validateInputData_argument example_input_def
      generateDataHash_example InsightCache_get_def InsightCache_set_def
      claude_up_result INSIGHT_CACHE_TTL_def Let_def)

lemma analyzeInsight_result:
  "fst (analyzeInsight L env now cache d) =
     (if \<not> validateInputData d then invalid_data_response
      else case InsightCache_get cache (generateDataHash L (as_InsightInput d)) now of
             (Some hit, c1) \<Rightarrow> hit
           | (None, c1) \<Rightarrow>
               (case fst (claudeRequest L env) of
                  Inr ins \<Rightarrow> ins
                | Inl err \<Rightarrow>
                    (case c1 of [] \<Rightarrow> contextualFallback (as_InsightInput d)
                     | (k, item) # rest \<Rightarrow> data item)))"
  by (simp add: analyzeInsight_def Let_def split: prod.splits option.splits sum.splits list.splits)

lemma analyzeInsight_cache:
  "fst (snd (analyzeInsight L env now cache d)) =
     (if \<not> validateInputData d then cache
      else case InsightCache_get cache (generateDataHash L (as_InsightInput d)) now of
             (Some hit, c1) \<Rightarrow> c1
           | (None, c1) \<Rightarrow>
               (case fst (claudeRequest L env) of
                  Inr ins \<Rightarrow> InsightCache_set c1 (generateDataHash L (as_InsightInput d)) ins now
                | Inl err \<Rightarrow> c1))"
  by (simp add: analyzeInsight_def Let_def split: prod.splits option.splits sum.splits list.splits)

lemma analyzeInsight_events:
  "snd (snd (analyzeInsight L env now cache d)) =
     (if \<not> validateInputData d then []
      else case fst (InsightCache_get cache (generateDataHash L (as_InsightInput d)) now) of
             Some hit \<Rightarrow> [CacheGet (generateDataHash L (as_InsightInput d))]
           | None \<Rightarrow>
               CacheGet (generateDataHash L (as_InsightInput d)) # snd (claudeRequest L env)
                 @ [case fst (claudeRequest L env) of
                      Inr ins \<Rightarrow> CacheSet (generateDataHash L (as_InsightInput d))
                    | Inl err \<Rightarrow> CacheValues])"
  by (simp add: analyzeInsight_def Let_def split: prod.splits option.splits sum.splits list.splits)

lemma InsightCache_get_cases:
  "InsightCache_get cache h now = (r, c1) \<Longrightarrow>
     (c1 = cache \<and> (r = None \<longrightarrow> mapGet cache h = None))
     \<or> (r = None \<and> c1 = mapDelete cache h \<and> (\<exists>item. mapGet cache h = Some item \<and> now > expires item))"
  by (auto simp add: InsightCache_get_def split: option.splits if_splits)

text \<open>
  Claim C10. An input that fails shape validation (not an object; production index,
  energy price or temperature not a number; energy trend outside up, down, stable;
  production trend or alert not a string) gets the fixed invalid-data pair, the cache
  is untouched and nothing happens besides: no cache read, no cache write, no call of
  the text-generation API.
\<close>

theorem invalid_input_response:
  assumes "\<not> typeof_object d
     \<or> \<not> typeof_number (getProp (getProp d ''production'') ''index'')
     \<or> \<not> typeof_number (getProp (getProp d ''energy'') ''centsPerKwh'')
     \<or> \<not> typeof_number (getProp (getProp d ''weather'') ''temp'')
     \<or> getProp (getProp d ''energy'') ''trend'' \<notin> {JStr ''up'', JStr ''down'', JStr ''stable''}
     \<or> \<not> typeof_string (getProp (getProp d ''production'') ''trend'')
     \<or> \<not> typeof_string (getProp (getProp d ''weather'') ''alert'')
     \<or> \<not> validateInputData d"
  shows "analyzeInsight L env now cache d =
     (\<lparr>summary = ''Invalid data provided for analysis.'',
       recommendation = ''Please ensure all required data fields are present and valid.''\<rparr>,
      cache, [])"
proof -
  from assms have "\<not> validateInputData d"
    by (auto simp add: validateInputData_def Let_def)
  then show ?thesis
    by (simp add: analyzeInsight_def invalid_data_response_def)
qed

theorem invalid_input_response_witness:
  "getProp (getProp (JObj [(''production'', JObj [(''index'', JNum 1), (''trend'', JStr ''x'')]),
                          (''energy'', JObj [(''centsPerKwh'', JNum 2), (''trend'', JStr ''sideways'')]),
                          (''weather'', JObj [(''temp'', JNum 3), (''alert'', JStr ''none'')])]) ''energy'') ''trend''
     \<notin> {JStr ''up'', JStr ''down'', JStr ''stable''}
   \<and> analyzeInsight example_lib claude_up 5 cache_after_success
        (JObj [(''production'', JObj [(''index'', JNum 1), (''trend'', JStr ''x'')]),
               (''energy'', JObj [(''centsPerKwh'', JNum 2), (''trend'', JStr ''sideways'')]),
               (''weather'', JObj [(''temp'', JNum 3), (''alert'', JStr ''none'')])])
      = (\<lparr>summary = ''Invalid data provided for analysis.'',
          recommendation = ''Please ensure all required data fields are present and valid.''\<rparr>,
         cache_after_success, [])"
  using invalid_input_response [of "JObj [(''production'', JObj [(''index'', JNum 1), (''trend'', JStr ''x'')]),
               (''energy'', JObj [(''centsPerKwh'', JNum 2), (''trend'', JStr ''sideways'')]),
               (''weather'', JObj [(''temp'', JNum 3), (''alert'', JStr ''none'')])]" example_lib claude_up 5 cache_after_success]
  by simp

lemma claudeRequest_fails:
  "CLAUDE_API_KEY env = None \<or> CLAUDE_API_KEY env = Some []
   \<or> claude_reply env = Rejected
   \<or> (\<exists>st b. claude_reply env = Responded st b \<and> (\<not> response_ok st \<or> b = None))
   \<or> (\<exists>st text. claude_reply env = Responded st (Some text)
         \<and> parseClaudeResponse L (case text of Some t \<Rightarrow> t | None \<Rightarrow> []) = None)
   \<Longrightarrow> \<exists>err. fst (claudeRequest L env) = Inl err"
  by (auto simp add: claudeRequest_def split: upstream.splits option.splits)

lemma analyzeInsight_failed:
  assumes "validateInputData d"
    and "fst (InsightCache_get cache (generateDataHash L (as_InsightInput d)) now) = None"
    and "fst (claudeRequest L env) = Inl err"
  shows "fst (analyzeInsight L env now cache d) =
           (case snd (InsightCache_get cache (generateDataHash L (as_InsightInput d)) now) of
              [] \<Rightarrow> contextualFallback (as_InsightInput d)
            | (k, item) # rest \<Rightarrow> data item)
         \<and> mapGet (snd (InsightCache_get cache (generateDataHash L (as_InsightInput d)) now))
              (generateDataHash L (as_InsightInput d)) = None"
proof -
  obtain c1 where get: "InsightCache_get cache (generateDataHash L (as_InsightInput d)) now = (None, c1)"
    using assms(2) by (cases "InsightCache_get cache (generateDataHash L (as_InsightInput d)) now") simp
  have "fst (analyzeInsight L env now cache d) =
      (case c1 of [] \<Rightarrow> contextualFallback (as_InsightInput d) | (k, item) # rest \<Rightarrow> data item)"
    using assms(1,3) get by (simp add: analyzeInsight_result)
  moreover have "mapGet c1 (generateDataHash L (as_InsightInput d)) = None"
    using InsightCache_get_cases [OF get] by (auto simp add: mapGet_mapDelete_same)
  ultimately show ?thesis using get by simp
qed

text \<open>
  Every fingerprint being the same string, the cache of the generator never holds more
  than one entry once it has started empty, and that entry is the one of the current
  fingerprint.
\<close>

lemma generateDataHash_constant: "generateDataHash L d = generateDataHash L d'"
  by (simp add: generateDataHash_def dataString_constant)

lemma analyzeInsight_single_entry:
  assumes "cache = [] \<or> (\<exists>item. cache = [(generateDataHash L d0, item)])"
  shows "fst (snd (analyzeInsight L env now cache d)) = []
         \<or> (\<exists>item. fst (snd (analyzeInsight L env now cache d)) = [(generateDataHash L d0, item)])"
proof -
  have h: "generateDataHash L (as_InsightInput d) = generateDataHash L d0"
    by (rule generateDataHash_constant)
  from assms consider "cache = []" | item where "cache = [(generateDataHash L d0, item)]"
    by blast
  then show ?thesis
  proof cases
    case 1
    then show ?thesis
      by (cases "fst (claudeRequest L env)")
        (simp_all add: analyzeInsight_cache h InsightCache_get_def InsightCache_set_def)
  next
    case 2
    show ?thesis
    proof (cases "expires item < now")
      case True
      with 2 show ?thesis
        by (cases "fst (claudeRequest L env)")
          (simp_all add: analyzeInsight_cache h InsightCache_get_def InsightCache_set_def)
    next
      case False
      with 2 show ?thesis
        by (simp add: analyzeInsight_cache h InsightCache_get_def)
    qed
  qed
qed

text \<open>
  So the read that precedes the request leaves the cache empty whenever it misses, and
  a failed generation ends in the rule-based insight: neither a stale insight of the
  current fingerprint nor an insight of another fingerprint is ever there to be served
  by the \<open>catch\<close> block.
\<close>

lemma failed_generation_is_rule_based:
  assumes "cache = [] \<or> (\<exists>item. cache = [(generateDataHash L d0, item)])"
    and "validateInputData d"
    and "fst (InsightCache_get cache (generateDataHash L (as_InsightInput d)) now) = None"
    and "fst (claudeRequest L env) = Inl err"
  shows "fst (analyzeInsight L env now cache d) = contextualFallback (as_InsightInput d)"
proof -
  have h: "generateDataHash L (as_InsightInput d) = generateDataHash L d0"
    by (rule generateDataHash_constant)
  have "snd (InsightCache_get cache (generateDataHash L (as_InsightInput d)) now) = []"
    using assms(1,3) by (auto simp add: h InsightCache_get_def split: if_splits)
  then show ?thesis
    using analyzeInsight_failed [OF assms(2,3,4)] by simp
qed

text \<open>
  Claim C1 asks that a failed generation serve first the cached insight of the current
  fingerprint, even if stale. The \<open>catch\<close> block reads the map without an expiry test
  to that end, but \<open>cache.get(dataHash)\<close> has deleted the expired entry before the
  request is made. After a successful call at time 0, which caches an insight under the
  fingerprint, the same data at 1800001 ms with the request rejected gets the
  rule-based insight, not the cached one.
\<close>

theorem stale_insight_not_served:
  "validateInputData example_input
   \<and> mapGet cache_after_success (generateDataHash example_lib (as_InsightInput example_input))
       = Some \<lparr>data = \<lparr>summary = ''Costs rising'', recommendation = ''Shift load''\<rparr>, expires = 1800000\<rparr>
   \<and> fst (claudeRequest example_lib claude_down) = Inl FetchRejected
   \<and> fst (analyzeInsight example_lib claude_down 1800001 cache_after_success example_input)
       = \<lparr>summary = ''Energy costs trending upward'',
          recommendation = ''Optimize energy usage and consider off-peak scheduling''\<rparr>"
  by (simp add: generateDataHash_example cache_after_success_eq claude_down_result analyzeInsight_result
      InsightCache_get_def contextualFallback_def example_input_def validateInputData_argument
      as_InsightInput_argument example_production_def example_energy_def example_weather_def)

theorem stale_insight_not_served_witness:
  "fst (analyzeInsight example_lib claude_down 1800001 cache_after_success example_input)
     = \<lparr>summary = ''Energy costs trending upward'',
        recommendation = ''Optimize energy usage and consider off-peak scheduling''\<rparr>"
  using stale_insight_not_served by simp

section \<open>What the insight cache of the generator holds\<close>

lemma claudeRequest_parsed:
  "fst (claudeRequest L env) = Inr ins \<Longrightarrow> \<exists>text. parseClaudeResponse L text = Some ins"
  by (auto simp add: claudeRequest_def split: if_splits upstream.splits option.splits)

text \<open>
  The cache of fetchInsight.ts holds validated insights only. A call of
  \<open>analyzeInsight\<close> leaves the cache as it was, or evicts the expired entry of the
  current fingerprint, or stores under that fingerprint the insight it returns, which
  then is the one \<open>parseClaudeResponse\<close> accepted. On invalid input and on a failed
  generation nothing is stored: the cache is unchanged but for that eviction.
\<close>

lemma insight_cache_validated_only:
  "(fst (snd (analyzeInsight L env now cache d)) = cache
    \<or> (fst (snd (analyzeInsight L env now cache d))
          = mapDelete cache (generateDataHash L (as_InsightInput d))
        \<and> (\<exists>item. mapGet cache (generateDataHash L (as_InsightInput d)) = Some item
                   \<and> now > expires item))
    \<or> ((\<exists>text. parseClaudeResponse L text = Some (fst (analyzeInsight L env now cache d)))
        \<and> fst (claudeRequest L env) = Inr (fst (analyzeInsight L env now cache d))
        \<and> fst (snd (analyzeInsight L env now cache d))
            = InsightCache_set
                (snd (InsightCache_get cache (generateDataHash L (as_InsightInput d)) now))
                (generateDataHash L (as_InsightInput d))
                (fst (analyzeInsight L env now cache d)) now))
   \<and> (\<not> validateInputData d \<or> (\<exists>err. fst (claudeRequest L env) = Inl err)
       \<longrightarrow> fst (snd (analyzeInsight L env now cache d)) = cache
           \<or> (fst (snd (analyzeInsight L env now cache d))
                 = mapDelete cache (generateDataHash L (as_InsightInput d))
               \<and> (\<exists>item. mapGet cache (generateDataHash L (as_InsightInput d)) = Some item
                          \<and> now > expires item)))"
proof (cases "validateInputData d")
  case False
  then show ?thesis by (simp add: analyzeInsight_cache)
next
  case True
  obtain r c1 where get: "InsightCache_get cache (generateDataHash L (as_InsightInput d)) now = (r, c1)"
    by (cases "InsightCache_get cache (generateDataHash L (as_InsightInput d)) now")
  note c1 = InsightCache_get_cases [OF get]
  show ?thesis
  proof (cases r)
    case (Some hit)
    with True get c1 show ?thesis by (simp add: analyzeInsight_cache)
  next
    case None
    show ?thesis
    proof (cases "fst (claudeRequest L env)")
      case (Inl err)
      with True get c1 None show ?thesis
        by (auto simp add: analyzeInsight_cache)
    next
      case (Inr ins)
      then have "\<exists>text. parseClaudeResponse L text = Some ins"
        by (rule claudeRequest_parsed)
      with True get None Inr show ?thesis
        by (simp add: analyzeInsight_cache analyzeInsight_result)
    qed
  qed
qed

section \<open>The fetchers fall back\<close>









section \<open>The weather alert\<close>

lemma weatherRequest_Inr:
  assumes "weatherRequest env = Inr result"
  shows "\<exists>st wr t. weather_reply env = Responded st (Some wr) \<and> response_ok st \<and> main_temp wr = Some t
          \<and> t \<noteq> 0 \<and> result = \<lparr>temp = Math_round t, alert = alertMessage (Math_round t) wr\<rparr>"
  using assms
  by (auto simp add: weatherRequest_def Let_def split: upstream.splits option.splits if_splits)

lemma alertMessage_none:
  "alerts wr = None \<or> alerts wr = Some [] \<Longrightarrow>
   \<forall>c cs. conditions wr = Some (c # cs) \<longrightarrow> cond_id c \<notin> set severeWeatherIds \<Longrightarrow>
   32 < T \<Longrightarrow> T < 100 \<Longrightarrow> alertMessage T wr = ''none''"
  by (auto simp add: alertMessage_def Let_def split: option.splits list.splits)

lemma alertMessage_upstream:
  "alerts wr = Some (a # rest) \<Longrightarrow>
   alertMessage T wr = (if event_name a \<noteq> [] then event_name a
                        else if alert_description a \<noteq> [] then alert_description a
                        else ''Weather alert active'')"
  by (simp add: alertMessage_def Let_def)

lemma alertMessage_temperature:
  "alerts wr = None \<or> alerts wr = Some [] \<Longrightarrow> conditions wr = Some (c # cs) \<Longrightarrow>
   (T \<ge> 100 \<longrightarrow> alertMessage T wr = ''Extreme heat warning'')
   \<and> (T \<le> 32 \<longrightarrow> alertMessage T wr = ''Freezing temperature alert'')
   \<and> (32 < T \<and> T < 100 \<and> cond_id c \<in> set severeWeatherIds
        \<longrightarrow> alertMessage T wr = cond_main c @ '': '' @ cond_description c)"
  by (auto simp add: alertMessage_def Let_def split: option.splits list.splits)

text \<open>
  Claim C6, for the replies that list at least one weather condition. After a
  successful weather fetch the alert is \<open>none\<close> unless the first condition code is in
  the severe-weather set, or the rounded temperature is at least 100 or at most 32, or
  the reply carries an alert. An upstream alert, when there is one, decides the alert
  whatever the conditions and the temperature. Without one, and with a condition
  listed, a temperature of at least 100 yields the extreme-heat alert, one of at most
  32 the freezing alert, and a severe condition code otherwise its own description.
\<close>

theorem weather_alert_rule:
  assumes "weatherRequest env = Inr result"
  shows "\<exists>st wr t. weather_reply env = Responded st (Some wr) \<and> main_temp wr = Some t
      \<and> temp result = Math_round t
      \<and> ((alerts wr = None \<or> alerts wr = Some [])
           \<and> (\<forall>c cs. conditions wr = Some (c # cs) \<longrightarrow> cond_id c \<notin> set severeWeatherIds)
           \<and> 32 < temp result \<and> temp result < 100
          \<longrightarrow> alert result = ''none'')
      \<and> (\<forall>a rest. alerts wr = Some (a # rest) \<longrightarrow>
            alert result = (if event_name a \<noteq> [] then event_name a
                            else if alert_description a \<noteq> [] then alert_description a
                            else ''Weather alert active''))
      \<and> (\<forall>c cs. (alerts wr = None \<or> alerts wr = Some []) \<and> conditions wr = Some (c # cs) \<longrightarrow>
            (temp result \<ge> 100 \<longrightarrow> alert result = ''Extreme heat warning'')
            \<and> (temp result \<le> 32 \<longrightarrow> alert result = ''Freezing temperature alert'')
            \<and> (32 < temp result \<and> temp result < 100 \<and> cond_id c \<in> set severeWeatherIds
                 \<longrightarrow> alert result = cond_main c @ '': '' @ cond_description c))"
proof -
  from weatherRequest_Inr [OF assms] obtain st wr t where
    r: "weather_reply env = Responded st (Some wr)" "main_temp wr = Some t"
       "result = \<lparr>temp = Math_round t, alert = alertMessage (Math_round t) wr\<rparr>"
    by blast
  have "(alerts wr = None \<or> alerts wr = Some [])
           \<and> (\<forall>c cs. conditions wr = Some (c # cs) \<longrightarrow> cond_id c \<notin> set severeWeatherIds)
           \<and> 32 < temp result \<and> temp result < 100
          \<longrightarrow> alert result = ''none''"
    using r(3) alertMessage_none [of wr "Math_round t"] by simp
  moreover have "\<forall>a rest. alerts wr = Some (a # rest) \<longrightarrow>
            alert result = (if event_name a \<noteq> [] then event_name a
                            else if alert_description a \<noteq> [] then alert_description a
                            else ''Weather alert active'')"
    using r(3) alertMessage_upstream [of wr _ _ "Math_round t"] by simp
  moreover have "\<forall>c cs. (alerts wr = None \<or> alerts wr = Some []) \<and> conditions wr = Some (c # cs) \<longrightarrow>
            (temp result \<ge> 100 \<longrightarrow> alert result = ''Extreme heat warning'')
            \<and> (temp result \<le> 32 \<longrightarrow> alert result = ''Freezing temperature alert'')
            \<and> (32 < temp result \<and> temp result < 100 \<and> cond_id c \<in> set severeWeatherIds
                 \<longrightarrow> alert result = cond_main c @ '': '' @ cond_description c)"
    using r(3) alertMessage_temperature [of wr _ _ "Math_round t"] by simp
  ultimately show ?thesis using r by (intro exI [of _ st] exI [of _ wr] exI [of _ t]) simp
qed

theorem weather_alert_rule_witness:
  "weatherRequest weather_hot_with_alert = Inr \<lparr>temp = 101, alert = ''Flood Watch''\<rparr>
   \<and> (\<exists>st wr t. weather_reply weather_hot_with_alert = Responded st (Some wr) \<and> main_temp wr = Some t
        \<and> temp \<lparr>temp = 101, alert = ''Flood Watch''\<rparr> = Math_round t
        \<and> alerts wr = Some [\<lparr>event_name = ''Flood Watch'', alert_description = ''Flooding possible''\<rparr>])"
proof -
  have r: "weatherRequest weather_hot_with_alert = Inr \<lparr>temp = 101, alert = ''Flood Watch''\<rparr>"
    by (simp add: weatherRequest_def weather_hot_with_alert_def response_ok_def Math_round_def
        alertMessage_def Let_def)
  from weather_alert_rule [OF r] show ?thesis
    using r by (auto simp add: weather_hot_with_alert_def)
qed

text \<open>
  Claim C6 as worded fails where the reply lists no condition: the temperature test
  sits inside the test of the conditions, and a successful fetch at 105 degrees then
  has the alert \<open>none\<close>.
\<close>

theorem hot_without_condition_counterexample:
  "weatherRequest weather_hot_no_condition = Inr \<lparr>temp = 105, alert = ''none''\<rparr>
   \<and> temp \<lparr>temp = 105, alert = ''none''\<rparr> \<ge> 100"
  by (simp add: weatherRequest_def weather_hot_no_condition_def response_ok_def Math_round_def
      alertMessage_def Let_def)

section \<open>The time stamp of the response\<close>










section \<open>The handler always answers\<close>



section \<open>What the insight cache of the handler holds\<close>

text \<open>
  Claim C9 asks that no path of the generator or of the handler store a rule-based
  insight in the fingerprint-keyed insight cache. The handler calls \<open>setInsight\<close> on
  whatever \<open>analyzeInsight\<close> returns, and \<open>analyzeInsight\<close> returns its rule-based
  insight instead of throwing: after the first request of the example, whose
  generation failed on an empty cache, the handler's insight cache holds the
  rule-based insight under the fingerprint, stamped with the time of the request, and
  the response carries that time as \<open>lastInsightRun\<close>.
\<close>

theorem handler_stores_fallback:
  "fst (claudeRequest example_lib (ai_env request_without_fred_key)) = Inl FetchRejected
   \<and> insightCache (dashboardCache empty_world) = []
   \<and> map fst (insightCache (dashboardCache world_after_first_request))
       = [''sha1:{energy:{},production:{},weather:{}}'']
   \<and> map (insight \<circ> snd) (insightCache (dashboardCache world_after_first_request))
       = [\<lparr>summary = ''Data analysis temporarily unavailable'',
           recommendation = ''Monitor key metrics and adjust operations as needed''\<rparr>]
   \<and> map (lastInsightRun \<circ> snd) (insightCache (dashboardCache world_after_first_request)) = [1000]
   \<and> r_lastInsightRun (snd (fst (handler example_lib request_without_fred_key 1000 empty_world)))
       = Some 1000"
  by code_simp

theorem handler_stores_fallback_witness:
  "map (insight \<circ> snd) (insightCache (dashboardCache world_after_first_request))
     = [\<lparr>summary = ''Data analysis temporarily unavailable'',
         recommendation = ''Monitor key metrics and adjust operations as needed''\<rparr>]"
  using handler_stores_fallback by simp

end
